theory Spec2Isabelle
  imports Complex_Main "HOL-Library.Sublist"
begin

section \<open>Python values, exception classes and observable effects\<close>

text \<open>
  A Python class is its name with its direct bases, so that \<open>issubclass\<close> is the
  reflexive and transitive closure of "is a direct base of", as in the interpreter.
\<close>

datatype py_class = Cls string "py_class list"

fun issubclass :: "py_class \<Rightarrow> py_class \<Rightarrow> bool" where
  "issubclass (Cls n bases) d = (Cls n bases = d \<or> list_ex (\<lambda>b. issubclass b d) bases)"

definition object :: py_class where
  "object = Cls ''object'' []"

definition BaseException :: py_class where
  "BaseException = Cls ''BaseException'' [object]"

definition Exception :: py_class where
  "Exception = Cls ''Exception'' [BaseException]"

definition ValueError :: py_class where
  "ValueError = Cls ''ValueError'' [Exception]"


definition ArithmeticError :: py_class where
  "ArithmeticError = Cls ''ArithmeticError'' [Exception]"

definition OverflowError :: py_class where
  "OverflowError = Cls ''OverflowError'' [ArithmeticError]"

definition AttributeError :: py_class where
  "AttributeError = Cls ''AttributeError'' [Exception]"

definition RuntimeError :: py_class where
  "RuntimeError = Cls ''RuntimeError'' [Exception]"

text \<open>
  An exception that the code of the repository or the interpreter creates: its class and
  its message.
\<close>

record py_exception =
  exc_class :: py_class
  exc_str :: string

text \<open>
  An exception object that a wrapped operation raises. The wrapper sees three things of
  it: which object it is (\<open>exc_id\<close>, its identity), its class (for the \<open>except\<close>
  clause), and what \<open>str(e)\<close> does, which is the object's own \<open>__str__\<close>: it returns
  a text or raises.
\<close>

record 'i exc_object =
  exc_id :: 'i
  exc_type :: py_class
  exc_text :: "py_exception + string"

text \<open>\<open>except classes as e\<close> catches \<open>e\<close> when it is an instance of one class of the tuple.\<close>

definition isinstance :: "'i exc_object \<Rightarrow> py_class list \<Rightarrow> bool" where
  "isinstance e classes = list_ex (issubclass (exc_type e)) classes"

text \<open>
  What leaves the wrapper as an exception: the very object the operation raised,
  raised again, or an exception that arose inside the \<open>except\<close> block.
\<close>

datatype 'i raised = Reraised "'i exc_object" | Raised py_exception

text \<open>
  The values a caller can pass where a \<open>str\<close> is expected. \<open>PyObject c b\<close> is an instance
  of any other class \<open>c\<close> whose truth test gives \<open>b\<close>.
\<close>

datatype py_value =
    PyNone
  | PyBool bool
  | PyInt int
  | is_PyStr: PyStr (str_chars: string)
  | PyList "py_value list"
  | PyDict "(string \<times> py_value) list"
  | PyObject string bool

fun truthy :: "py_value \<Rightarrow> bool" where
  "truthy PyNone = False"
| "truthy (PyBool b) = b"
| "truthy (PyInt i) = (i \<noteq> 0)"
| "truthy (PyStr s) = (s \<noteq> [])"
| "truthy (PyList xs) = (xs \<noteq> [])"
| "truthy (PyDict kvs) = (kvs \<noteq> [])"
| "truthy (PyObject c b) = b"

text \<open>\<open>str(i)\<close> of a Python integer, as the f-strings of the log messages format it.\<close>

fun str_nat :: "nat \<Rightarrow> string" where
  "str_nat n =
     (if n < 10 then [''0123456789'' ! n]
      else str_nat (n div 10) @ [''0123456789'' ! (n mod 10)])"

declare str_nat.simps [simp del]

definition str_int :: "int \<Rightarrow> string" where
  "str_int i = (if i < 0 then ''-'' @ str_nat (nat (- i)) else str_nat (nat i))"

text \<open>
  A number of seconds as Python has it: an \<open>int\<close>, or a \<open>float\<close> given by its exact
  value. The two differ in how they multiply and in how they print.
\<close>

datatype seconds = IntSeconds int | FloatSeconds rat

fun seconds_value :: "seconds \<Rightarrow> rat" where
  "seconds_value (IntSeconds i) = of_int i"
| "seconds_value (FloatSeconds q) = q"

text \<open>
  The part of the interpreter and its platform that the wrapper calls and the
  repository does not contain: \<open>time.sleep\<close>, which returns after the delay or raises
  (a \<open>ValueError\<close> for a negative duration, an \<open>OverflowError\<close> for one too long for the
  platform's clock), and the text of a float inside an f-string.
\<close>

record interpreter =
  time_sleep :: "seconds \<Rightarrow> py_exception + unit"
  float_repr :: "rat \<Rightarrow> string"

definition str_seconds :: "interpreter \<Rightarrow> seconds \<Rightarrow> string" where
  "str_seconds py secs =
     (case secs of IntSeconds i \<Rightarrow> str_int i | FloatSeconds q \<Rightarrow> float_repr py q)"

text \<open>
  What a run does beyond returning: it calls the wrapped function, it logs, it sleeps.
  A trace lists these effects in the order they happen.
\<close>

datatype level = INFO | WARNING | ERROR | CRITICAL

record log_record =
  log_name :: string
  log_level :: level
  log_msg :: string

datatype event = Invoke | Log log_record | Sleep seconds

definition invocations :: "event list \<Rightarrow> nat" where
  "invocations tr = length (filter (\<lambda>ev. ev = Invoke) tr)"

fun sleeps :: "event list \<Rightarrow> seconds list" where
  "sleeps [] = []"
| "sleeps (Sleep d # tr) = d # sleeps tr"
| "sleeps (ev # tr) = sleeps tr"

definition total_delay :: "event list \<Rightarrow> rat" where
  "total_delay tr = sum_list (map seconds_value (sleeps tr))"

fun no_logs :: "event list \<Rightarrow> event list" where
  "no_logs [] = []"
| "no_logs (Log r # tr) = no_logs tr"
| "no_logs (ev # tr) = ev # no_logs tr"

section \<open>core/base\_workflow.py: retry\_with\_backoff\<close>

text \<open>
  The decorator's arguments, with the defaults of its signature: \<open>retries = 3\<close>,
  \<open>backoff_in_seconds = 1\<close>, \<open>exceptions = (Exception,)\<close>. The signature writes
  \<open>backoff_in_seconds: int\<close>; the repository's own caller passes the float \<open>0.1\<close>, and
  the code runs on either.
\<close>

record retry_config =
  retries :: int
  backoff_in_seconds :: seconds
  exceptions :: "py_class list"

definition retry_defaults :: retry_config where
  "retry_defaults = \<lparr>retries = 3, backoff_in_seconds = IntSeconds 1, exceptions = [Exception]\<rparr>"

text \<open>The name of the module's logger, \<open>logging.getLogger(__name__)\<close>.\<close>

definition module_logger :: string where
  "module_logger = ''core.base_workflow''"

text \<open>
  \<open>backoff_in_seconds * 2 ** x\<close>, for the counter \<open>x \<ge> 0\<close>. \<open>2 ** x\<close> is an \<open>int\<close>.
  An \<open>int\<close> times it is exact. A \<open>float\<close> times it first converts it to a \<open>float\<close>,
  which raises \<open>OverflowError\<close> from \<open>2 ** 1024\<close> on; below that the product with a
  power of two is exact (a product beyond the range of the floats is \<open>inf\<close> in Python:
  the model keeps the number, which \<open>time_sleep\<close> and \<open>float_repr\<close> are then given).
\<close>

fun backoff_delay :: "seconds \<Rightarrow> nat \<Rightarrow> py_exception + seconds" where
  "backoff_delay (IntSeconds i) x = Inr (IntSeconds (i * 2 ^ x))"
| "backoff_delay (FloatSeconds q) x =
     (if 1024 \<le> x then
        Inl \<lparr>exc_class = OverflowError, exc_str = ''int too large to convert to float''\<rparr>
      else Inr (FloatSeconds (q * 2 ^ x)))"

text \<open>
  The two f-strings of the \<open>except\<close> block. \<open>name\<close> is what reading \<open>func.__name__\<close>
  does: it gives the name, or raises (an \<open>AttributeError\<close> for a callable that has
  none). An f-string evaluates its fields from left to right, and raises what a field
  raises.
\<close>

definition error_text :: "(py_exception + string) \<Rightarrow> int \<Rightarrow> py_exception + string" where
  "error_text name n =
     (case name of
        Inl err \<Rightarrow> Inl err
      | Inr nm \<Rightarrow>
          Inr (''RFR Level 1 failed for '' @ nm @ '' after '' @ str_int n @ '' retries.''))"

definition warning_text ::
  "interpreter \<Rightarrow> (py_exception + string) \<Rightarrow> seconds \<Rightarrow> int \<Rightarrow> int \<Rightarrow> 'i exc_object
     \<Rightarrow> py_exception + string" where
  "warning_text py name sleep x n e =
     (case name of
        Inl err \<Rightarrow> Inl err
      | Inr nm \<Rightarrow>
          (case exc_text e of
             Inl err \<Rightarrow> Inl err
           | Inr msg \<Rightarrow>
               Inr (''Retrying '' @ nm @ '' in '' @ str_seconds py sleep @ ''s (Attempt ''
                 @ str_int (x + 1) @ ''/'' @ str_int n @ '') due to '' @ msg)))"

text \<open>
  The \<open>while True\<close> loop of \<open>wrapper\<close>, with the counter \<open>x\<close>. The wrapped function is a
  state transformer that returns (\<open>Inr\<close>) or raises (\<open>Inl\<close>). In the \<open>except\<close> block
  every statement can raise, and what it raises leaves the wrapper in place of \<open>e\<close>:
  the product for \<open>sleep\<close>, the f-string of the log call, \<open>time.sleep\<close>. The loop need
  not end (a negative \<open>retries\<close> is never reached by \<open>x\<close>), so its result is an
  option: \<open>None\<close> is a run that never returns.
\<close>

partial_function (option) retry_loop ::
  "interpreter \<Rightarrow> retry_config \<Rightarrow> (py_exception + string) \<Rightarrow> ('s \<Rightarrow> ('i exc_object + 'r) \<times> 's)
     \<Rightarrow> int \<Rightarrow> 's \<Rightarrow> event list \<Rightarrow> (('i raised + 'r) \<times> 's \<times> event list) option" where
  "retry_loop py cfg name func x s tr =
     (case func s of
        (Inr r, s') \<Rightarrow> Some (Inr r, s', tr @ [Invoke])
      | (Inl e, s') \<Rightarrow>
          if \<not> isinstance e (exceptions cfg) then Some (Inl (Reraised e), s', tr @ [Invoke])
          else if x = retries cfg then
            (case error_text name (retries cfg) of
               Inl err \<Rightarrow> Some (Inl (Raised err), s', tr @ [Invoke])
             | Inr txt \<Rightarrow>
                 Some (Inl (Reraised e), s',
                       tr @ [Invoke, Log \<lparr>log_name = module_logger, log_level = ERROR,
                                           log_msg = txt\<rparr>]))
          else
            (case backoff_delay (backoff_in_seconds cfg) (nat x) of
               Inl err \<Rightarrow> Some (Inl (Raised err), s', tr @ [Invoke])
             | Inr sleep \<Rightarrow>
                 (case warning_text py name sleep x (retries cfg) e of
                    Inl err \<Rightarrow> Some (Inl (Raised err), s', tr @ [Invoke])
                  | Inr txt \<Rightarrow>
                      (case time_sleep py sleep of
                         Inl err \<Rightarrow>
                           Some (Inl (Raised err), s',
                                 tr @ [Invoke, Log \<lparr>log_name = module_logger, log_level = WARNING,
                                                     log_msg = txt\<rparr>])
                       | Inr u \<Rightarrow>
                           retry_loop py cfg name func (x + 1) s'
                             (tr @ [Invoke, Log \<lparr>log_name = module_logger, log_level = WARNING,
                                                 log_msg = txt\<rparr>, Sleep sleep])))))"

declare retry_loop.simps [code]

text \<open>The decorated function: the loop from \<open>x = 0\<close>, on a fresh trace.\<close>

definition retry_with_backoff ::
  "interpreter \<Rightarrow> retry_config \<Rightarrow> (py_exception + string) \<Rightarrow> ('s \<Rightarrow> ('i exc_object + 'r) \<times> 's)
     \<Rightarrow> 's \<Rightarrow> (('i raised + 'r) \<times> 's \<times> event list) option" where
  "retry_with_backoff py cfg name func s = retry_loop py cfg name func 0 s []"

text \<open>
  \<open>fails_retryably cfg func s k\<close>: the next \<open>k\<close> calls of \<open>func\<close> from state \<open>s\<close> all
  raise an exception that \<open>exceptions cfg\<close> catches. \<open>state_after func k s\<close> is the
  state those \<open>k\<close> calls leave. \<open>str_returns func s k\<close>: on each exception that the
  next \<open>k\<close> calls raise, \<open>str(e)\<close> returns.
\<close>

fun fails_retryably ::
  "retry_config \<Rightarrow> ('s \<Rightarrow> ('i exc_object + 'r) \<times> 's) \<Rightarrow> 's \<Rightarrow> nat \<Rightarrow> bool" where
  "fails_retryably cfg func s 0 = True"
| "fails_retryably cfg func s (Suc k) =
     (case func s of
        (Inl e, s') \<Rightarrow> isinstance e (exceptions cfg) \<and> fails_retryably cfg func s' k
      | (Inr r, s') \<Rightarrow> False)"

definition always_fails_retryably ::
  "retry_config \<Rightarrow> ('s \<Rightarrow> ('i exc_object + 'r) \<times> 's) \<Rightarrow> bool" where
  "always_fails_retryably cfg func =
     (\<forall>s. case func s of (Inl e, s') \<Rightarrow> isinstance e (exceptions cfg) | (Inr r, s') \<Rightarrow> False)"

fun state_after :: "('s \<Rightarrow> ('i exc_object + 'r) \<times> 's) \<Rightarrow> nat \<Rightarrow> 's \<Rightarrow> 's" where
  "state_after func 0 s = s"
| "state_after func (Suc k) s = state_after func k (snd (func s))"

fun str_returns :: "('s \<Rightarrow> ('i exc_object + 'r) \<times> 's) \<Rightarrow> 's \<Rightarrow> nat \<Rightarrow> bool" where
  "str_returns func s 0 = True"
| "str_returns func s (Suc k) =
     (case func s of
        (Inl e, s') \<Rightarrow> (case exc_text e of Inl err \<Rightarrow> False | Inr msg \<Rightarrow> True)
                        \<and> str_returns func s' k
      | (Inr r, s') \<Rightarrow> True)"

text \<open>
  \<open>delay_accepted py cfg k\<close>: the delay of round \<open>k\<close> (counting from 0) is computed and
  \<open>time.sleep\<close> returns from it. \<open>scaled d k\<close> is that delay, \<open>d * 2 ** k\<close>.
\<close>

definition delay_accepted :: "interpreter \<Rightarrow> retry_config \<Rightarrow> nat \<Rightarrow> bool" where
  "delay_accepted py cfg k =
     (case backoff_delay (backoff_in_seconds cfg) k of
        Inl err \<Rightarrow> False
      | Inr sleep \<Rightarrow> time_sleep py sleep = Inr ())"

fun scaled :: "seconds \<Rightarrow> nat \<Rightarrow> seconds" where
  "scaled (IntSeconds i) k = IntSeconds (i * 2 ^ k)"
| "scaled (FloatSeconds q) k = FloatSeconds (q * 2 ^ k)"

subsection \<open>An interpreter and operations for the examples\<close>

text \<open>
  The \<open>time.sleep\<close> of CPython 3.11 as far as its conversion of the duration decides:
  the duration becomes a signed 64-bit count of nanoseconds, what does not fit is
  refused with \<open>OverflowError\<close> (for a float, up to the rounding of the conversion), a
  negative duration with \<open>ValueError\<close>. What the operating system refuses beyond that
  is not in it. The text of a float is read from a table of the floats an example prints.
\<close>

definition cpython_sleep :: "seconds \<Rightarrow> py_exception + unit" where
  "cpython_sleep secs =
     (case secs of
        IntSeconds i \<Rightarrow>
          if i < - 9223372036 \<or> 9223372036 < i then
            Inl \<lparr>exc_class = OverflowError,
                 exc_str = ''timestamp too large to convert to C _PyTime_t''\<rparr>
          else if i < 0 then
            Inl \<lparr>exc_class = ValueError, exc_str = ''sleep length must be non-negative''\<rparr>
          else Inr ()
      | FloatSeconds q \<Rightarrow>
          if q * 10 ^ 9 < - (2 ^ 63) \<or> 2 ^ 63 \<le> q * 10 ^ 9 then
            Inl \<lparr>exc_class = OverflowError,
                 exc_str = ''timestamp out of range for platform time_t''\<rparr>
          else if q < 0 then
            Inl \<lparr>exc_class = ValueError, exc_str = ''sleep length must be non-negative''\<rparr>
          else Inr ())"

definition cpython :: "(rat \<times> string) list \<Rightarrow> interpreter" where
  "cpython table =
     \<lparr>time_sleep = cpython_sleep,
      float_repr = (\<lambda>q. case map_of table q of Some text \<Rightarrow> text | None \<Rightarrow> [])\<rparr>"

text \<open>
  An operation that raises at every call: a new exception object, numbered by the call,
  of the class \<open>c\<close>, on which \<open>str()\<close> does \<open>txt\<close>; its state counts the calls.
  \<open>failing_method\<close> is the method of that name in the repository's test, which raises
  \<open>ValueError("Simulated Transient Failure")\<close>.
\<close>

definition raising ::
  "py_class \<Rightarrow> (py_exception + string) \<Rightarrow> nat \<Rightarrow> (nat exc_object + unit) \<times> nat" where
  "raising c txt s = (Inl \<lparr>exc_id = s, exc_type = c, exc_text = txt\<rparr>, Suc s)"

definition failing_method :: "nat \<Rightarrow> (nat exc_object + unit) \<times> nat" where
  "failing_method = raising ValueError (Inr ''Simulated Transient Failure'')"

text \<open>What reading \<open>__name__\<close> raises on a \<open>functools.partial\<close> object, which has no name.\<close>

definition missing_name :: py_exception where
  "missing_name =
     \<lparr>exc_class = AttributeError,
      exc_str = '''functools.partial' object has no attribute '__name__'' @ [CHR 0x27]\<rparr>"

section \<open>core/base\_workflow.py: BaseWorkflow\<close>

text \<open>
  The instance attributes \<open>__init__\<close> sets: the tenant and the logger, which is the
  logger of the name \<open>"<class name>[<org_id>]"\<close>.
\<close>

record workflow =
  org_id :: string
  logger :: string

text \<open>
  \<open>__init__\<close>, for the concrete class \<open>class_name\<close> and the argument \<open>arg\<close> passed as
  \<open>org_id\<close>. Past the guard \<open>arg\<close> is a \<open>str\<close>, whose characters \<open>str_chars\<close> reads.
  A raise leaves no instance: the result is the exception alone.
\<close>

definition BaseWorkflow_init ::
  "string \<Rightarrow> py_value \<Rightarrow> event list \<Rightarrow> (py_exception + workflow) \<times> event list" where
  "BaseWorkflow_init class_name arg tr =
     (if \<not> truthy arg \<or> \<not> is_PyStr arg then
        (Inl \<lparr>exc_class = ValueError,
              exc_str = ''A valid 'org_id' must be provided to initialize a workflow.''\<rparr>, tr)
      else
        (let self = \<lparr>org_id = str_chars arg,
                     logger = class_name @ ''['' @ str_chars arg @ '']''\<rparr>
         in (Inr self,
             tr @ [Log \<lparr>log_name = logger self, log_level = INFO,
                        log_msg = ''Initialized workflow for Org: '' @ str_chars arg\<rparr>])))"

text \<open>
  \<open>rfr_level_4_alert\<close> and \<open>log_partial_success\<close> return \<open>None\<close>; the model also
  returns \<open>self\<close> as the call leaves it. \<open>ctx\<close> is the optional \<open>context\<close> argument.
  \<open>fmt\<close> is the interpreter's formatting of a dictionary inside an f-string: it calls
  \<open>repr\<close> on every key and value and raises what one of them raises. The f-string is
  evaluated before the log call and nothing in the method catches: an exception of the
  formatting leaves the method, and nothing is logged. The body ends after the log
  call: the notification is a TODO comment.
\<close>

definition rfr_level_4_alert ::
  "((string \<times> 'v) list \<Rightarrow> py_exception + string) \<Rightarrow> workflow \<Rightarrow> string
     \<Rightarrow> (string \<times> 'v) list option \<Rightarrow> event list
     \<Rightarrow> (py_exception + unit) \<times> workflow \<times> event list" where
  "rfr_level_4_alert fmt self message ctx tr =
     (let error_context = (case ctx of None \<Rightarrow> [] | Some d \<Rightarrow> if d = [] then [] else d)
      in case fmt error_context of
           Inl err \<Rightarrow> (Inl err, self, tr)
         | Inr txt \<Rightarrow>
             (Inr (), self,
              tr @ [Log \<lparr>log_name = logger self, log_level = CRITICAL,
                         log_msg = ''RFR-L4 ALERT | Org: '' @ org_id self @ '' | Message: ''
                           @ message @ '' | Context: '' @ txt\<rparr>]))"

definition log_partial_success ::
  "workflow \<Rightarrow> string \<Rightarrow> string \<Rightarrow> event list \<Rightarrow> (py_exception + unit) \<times> workflow \<times> event list" where
  "log_partial_success self step_name details tr =
     (Inr (), self,
      tr @ [Log \<lparr>log_name = logger self, log_level = INFO,
                 log_msg = ''Step '' @ [CHR 0x27] @ step_name @ [CHR 0x27] @ '' completed: ''
                   @ details\<rparr>])"

text \<open>A run of the two helpers on one instance, in any order and number.\<close>

datatype 'v core_call = Alert string "(string \<times> 'v) list option" | PartialSuccess string string

fun core_step ::
  "((string \<times> 'v) list \<Rightarrow> py_exception + string) \<Rightarrow> 'v core_call \<Rightarrow> workflow \<times> event list
     \<Rightarrow> workflow \<times> event list" where
  "core_step fmt (Alert message ctx) (self, tr) = snd (rfr_level_4_alert fmt self message ctx tr)"
| "core_step fmt (PartialSuccess step_name details) (self, tr) =
     snd (log_partial_success self step_name details tr)"

definition run_core ::
  "((string \<times> 'v) list \<Rightarrow> py_exception + string) \<Rightarrow> 'v core_call list \<Rightarrow> workflow \<times> event list
     \<Rightarrow> workflow \<times> event list" where
  "run_core fmt calls st = fold (core_step fmt) calls st"

section \<open>core/config\_manager.py\<close>

text \<open>
  \<open>get_settings\<close> under \<open>lru_cache\<close>. Objects live in a store, a reference is an index
  into it, and \<open>cached\<close> is the cache's entry for the empty argument tuple. \<open>init\<close> is
  the constructor \<open>Settings()\<close>, which reads the process environment \<open>env\<close> and may
  raise; a call that raises caches nothing.
\<close>

record 'settings settings_store =
  objects :: "'settings list"
  cached :: "nat option"

definition get_settings ::
  "('env \<Rightarrow> py_exception + 'settings) \<Rightarrow> 'env \<Rightarrow> 'settings settings_store
     \<Rightarrow> (py_exception + nat) \<times> 'settings settings_store" where
  "get_settings init env h =
     (case cached h of
        Some r \<Rightarrow> (Inr r, h)
      | None \<Rightarrow>
          (case init env of
             Inl e \<Rightarrow> (Inl e, h)
           | Inr v \<Rightarrow>
               (Inr (length (objects h)),
                h\<lparr>objects := objects h @ [v], cached := Some (length (objects h))\<rparr>)))"

text \<open>A sequence of calls, each in the environment of its moment.\<close>

fun get_settings_calls ::
  "('env \<Rightarrow> py_exception + 'settings) \<Rightarrow> 'env list \<Rightarrow> 'settings settings_store
     \<Rightarrow> (py_exception + nat) list \<times> 'settings settings_store" where
  "get_settings_calls init [] h = ([], h)"
| "get_settings_calls init (env # envs) h =
     (case get_settings init env h of
        (r, h') \<Rightarrow> (case get_settings_calls init envs h' of (rs, h'') \<Rightarrow> (r # rs, h'')))"

text \<open>\<open>get_org_context\<close>; \<open>None\<close> is Python's \<open>None\<close> passed as \<open>org_id\<close>.\<close>

definition get_org_context :: "string option \<Rightarrow> py_exception + (string \<rightharpoonup> string)" where
  "get_org_context arg =
     (case arg of
        None \<Rightarrow>
          Inl \<lparr>exc_class = ValueError, exc_str = ''org_id is required for isolation enforcement.''\<rparr>
      | Some s \<Rightarrow>
          if s = [] then
            Inl \<lparr>exc_class = ValueError, exc_str = ''org_id is required for isolation enforcement.''\<rparr>
          else
            Inr [''org_id'' \<mapsto> s,
                 ''storage_prefix'' \<mapsto> ''orgs/'' @ s @ ''/'',
                 ''log_prefix'' \<mapsto> ''ALS['' @ s @ '']''])"

section \<open>Traces and the loop while every call fails\<close>

lemma invocations_append [simp]: "invocations (a @ b) = invocations a + invocations b"
  by (simp add: invocations_def)

lemma sleeps_append [simp]: "sleeps (a @ b) = sleeps a @ sleeps b"
  by (induction a rule: sleeps.induct) simp_all

lemma no_logs_append [simp]: "no_logs (a @ b) = no_logs a @ no_logs b"
  by (induction a rule: no_logs.induct) simp_all

lemma always_fails_retryably_prefix:
  "always_fails_retryably cfg func \<Longrightarrow> fails_retryably cfg func s k"
proof (induction k arbitrary: s)
  case 0
  show ?case by simp
next
  case (Suc k)
  from Suc.prems have "case func s of (Inl e, s') \<Rightarrow> isinstance e (exceptions cfg) | (Inr r, s') \<Rightarrow> False"
    unfolding always_fails_retryably_def by (rule spec)
  with Suc show ?case by (auto split: prod.splits sum.splits)
qed

lemma backoff_delay_scaled: "backoff_delay d k = Inr v \<Longrightarrow> v = scaled d k"
  by (cases d) (auto split: if_splits)

lemma seconds_value_scaled: "seconds_value (scaled d k) = seconds_value d * 2 ^ k"
  by (cases d) simp_all

lemma delay_accepted_sleep:
  assumes "delay_accepted py cfg k"
  shows "backoff_delay (backoff_in_seconds cfg) k = Inr (scaled (backoff_in_seconds cfg) k)
       \<and> time_sleep py (scaled (backoff_in_seconds cfg) k) = Inr ()"
proof -
  from assms obtain v where v: "backoff_delay (backoff_in_seconds cfg) k = Inr v"
    and sl: "time_sleep py v = Inr ()"
    by (auto simp add: delay_accepted_def split: sum.splits)
  from v have "v = scaled (backoff_in_seconds cfg) k" by (rule backoff_delay_scaled)
  with v sl show ?thesis by simp
qed

lemma sum_list_doubling:
  "sum_list (map (\<lambda>j. d * 2 ^ j) [0..<n]) = d * (2 ^ n - (1::rat))"
  by (induction n) (simp_all add: algebra_simps)

lemma retry_loop_exhausts:
  assumes nm: "name = Inr nm"
  shows "0 \<le> x \<Longrightarrow> x + int k = retries cfg \<Longrightarrow> fails_retryably cfg func s (Suc k) \<Longrightarrow>
    str_returns func s k \<Longrightarrow> (\<forall>j. nat x \<le> j \<and> j < nat x + k \<longrightarrow> delay_accepted py cfg j) \<Longrightarrow>
    \<exists>e s' tr'. func (state_after func k s) = (Inl e, s')
      \<and> isinstance e (exceptions cfg)
      \<and> retry_loop py cfg name func x s tr = Some (Inl (Reraised e), s', tr')
      \<and> invocations tr' = invocations tr + Suc k
      \<and> sleeps tr' = sleeps tr @ map (scaled (backoff_in_seconds cfg)) [nat x..<nat x + k]
      \<and> no_logs tr' = no_logs tr
           @ concat (map (\<lambda>j. [Invoke, Sleep (scaled (backoff_in_seconds cfg) j)]) [nat x..<nat x + k])
           @ [Invoke]"
proof (induction k arbitrary: x s tr)
  case 0
  then obtain e s' where f: "func s = (Inl e, s')" and m: "isinstance e (exceptions cfg)"
    by (auto split: prod.splits sum.splits)
  from 0 have "x = retries cfg" by simp
  with f m nm show ?case
    by (subst retry_loop.simps) (simp add: invocations_def error_text_def)
next
  case (Suc k)
  from Suc.prems(3) obtain e s1 where f: "func s = (Inl e, s1)"
    and m: "isinstance e (exceptions cfg)" and rest: "fails_retryably cfg func s1 (Suc k)"
    by (auto split: prod.splits sum.splits)
  from Suc.prems(4) f obtain msg where msg: "exc_text e = Inr msg"
    and rest_str: "str_returns func s1 k"
    by (auto split: sum.splits)
  from Suc.prems have ne: "x \<noteq> retries cfg" by simp
  let ?d = "scaled (backoff_in_seconds cfg) (nat x)"
  from Suc.prems(5) have "delay_accepted py cfg (nat x)" by simp
  then have d: "backoff_delay (backoff_in_seconds cfg) (nat x) = Inr ?d"
    and sl: "time_sleep py ?d = Inr ()"
    by (simp_all add: delay_accepted_sleep)
  let ?txt = "''Retrying '' @ nm @ '' in '' @ str_seconds py ?d @ ''s (Attempt ''
                 @ str_int (x + 1) @ ''/'' @ str_int (retries cfg) @ '') due to '' @ msg"
  have w: "warning_text py name ?d x (retries cfg) e = Inr ?txt"
    by (simp add: warning_text_def nm msg)
  let ?tr1 = "tr @ [Invoke, Log \<lparr>log_name = module_logger, log_level = WARNING, log_msg = ?txt\<rparr>,
                    Sleep ?d]"
  have step: "retry_loop py cfg name func x s tr = retry_loop py cfg name func (x + 1) s1 ?tr1"
    using f m ne d w sl by (subst retry_loop.simps) simp
  from Suc.prems have x1: "0 \<le> x + 1" "(x + 1) + int k = retries cfg" by simp_all
  have nx: "nat (x + 1) = Suc (nat x)" using Suc.prems(1) by simp
  from Suc.prems(5) have acc: "\<forall>j. nat (x + 1) \<le> j \<and> j < nat (x + 1) + k \<longrightarrow> delay_accepted py cfg j"
    by (simp add: nx)
  from Suc.IH [OF x1 rest rest_str acc, of ?tr1] obtain e' s' tr' where
    r: "func (state_after func k s1) = (Inl e', s')" "isinstance e' (exceptions cfg)"
       "retry_loop py cfg name func (x + 1) s1 ?tr1 = Some (Inl (Reraised e'), s', tr')"
       "invocations tr' = invocations ?tr1 + Suc k"
       "sleeps tr' = sleeps ?tr1 @ map (scaled (backoff_in_seconds cfg)) [nat (x + 1)..<nat (x + 1) + k]"
       "no_logs tr' = no_logs ?tr1
           @ concat (map (\<lambda>j. [Invoke, Sleep (scaled (backoff_in_seconds cfg) j)]) [nat (x + 1)..<nat (x + 1) + k])
           @ [Invoke]"
    by blast
  have up: "[nat x..<nat x + Suc k] = nat x # [Suc (nat x)..<Suc (nat x) + k]"
    by (simp add: upt_rec)
  show ?case
    apply (rule exI [of _ e'], rule exI [of _ s'], rule exI [of _ tr'])
    using r f step nx up by (simp add: invocations_def)
qed

lemma retry_with_backoff_exhausts:
  assumes "0 \<le> retries cfg" and "name = Inr nm"
    and "fails_retryably cfg func s (Suc (nat (retries cfg)))"
    and "str_returns func s (nat (retries cfg))"
    and "\<forall>k < nat (retries cfg). delay_accepted py cfg k"
  shows "\<exists>e s' tr. func (state_after func (nat (retries cfg)) s) = (Inl e, s')
      \<and> retry_with_backoff py cfg name func s = Some (Inl (Reraised e), s', tr)
      \<and> invocations tr = Suc (nat (retries cfg))
      \<and> sleeps tr = map (scaled (backoff_in_seconds cfg)) [0..<nat (retries cfg)]
      \<and> no_logs tr =
           concat (map (\<lambda>j. [Invoke, Sleep (scaled (backoff_in_seconds cfg) j)]) [0..<nat (retries cfg)])
           @ [Invoke]"
proof -
  have budget: "0 + int (nat (retries cfg)) = retries cfg"
    using assms(1) by simp
  have acc: "\<forall>j. nat 0 \<le> j \<and> j < nat 0 + nat (retries cfg) \<longrightarrow> delay_accepted py cfg j"
    using assms(5) by simp
  from retry_loop_exhausts [OF assms(2) order_refl budget assms(3) assms(4) acc, of "[]"]
  show ?thesis
    by (simp add: retry_with_backoff_def invocations_def) blast
qed

lemma failing_method_always_fails:
  "always_fails_retryably \<lparr>retries = n, backoff_in_seconds = d, exceptions = [Exception]\<rparr>
     failing_method"
  by (simp add: always_fails_retryably_def failing_method_def raising_def isinstance_def
      ValueError_def Exception_def)

subsection \<open>A negative number of retries\<close>

text \<open>
  The bound \<open>retries \<ge> 0\<close> of a retry policy is needed: the counter never meets a negative
  \<open>retries\<close>, and while every call fails retryably and the \<open>except\<close> block runs
  through, the loop does not return.
\<close>

lemma retry_loop_negative_retries:
  assumes "retries cfg < 0" and "name = Inr nm"
    and "always_fails_retryably cfg func"
    and "\<forall>s k. str_returns func s k"
    and "\<forall>k. delay_accepted py cfg k"
    and "0 \<le> x"
  shows "retry_loop py cfg name func x s tr = None"
proof (cases "retry_loop py cfg name func x s tr")
  case None
  then show ?thesis .
next
  case (Some y)
  let ?P = "\<lambda>py' cfg' name' func' x' (s' :: 'a) (tr' :: event list)
              (y' :: ('b raised + 'c) \<times> 'a \<times> event list).
              py' = py \<longrightarrow> cfg' = cfg \<longrightarrow> name' = name \<longrightarrow> func' = func \<longrightarrow> 0 \<le> x' \<longrightarrow> False"
  have "?P py cfg name func x s tr y"
  proof (rule retry_loop.raw_induct
      [where P = ?P and xa = "((((((py, cfg), name), func), x), s), tr)" and y = y,
        unfolded prod.case])
    show "retry_loop py cfg name func x s tr = Some y" by (rule Some)
  next
    fix loop py' cfg' name' func' x' s0 tr' y'
    assume IH: "\<And>p c n f x s t y. loop p c n f x s t = Some y \<Longrightarrow> ?P p c n f x s t y"
      and run: "(case func' s0 of
        (Inl e, s') \<Rightarrow>
          if \<not> isinstance e (exceptions cfg') then Some (Inl (Reraised e), s', tr' @ [Invoke])
          else if x' = retries cfg' then
            (case error_text name' (retries cfg') of
               Inl err \<Rightarrow> Some (Inl (Raised err), s', tr' @ [Invoke])
             | Inr txt \<Rightarrow>
                 Some (Inl (Reraised e), s',
                       tr' @ [Invoke, Log \<lparr>log_name = module_logger, log_level = ERROR,
                                           log_msg = txt\<rparr>]))
          else
            (case backoff_delay (backoff_in_seconds cfg') (nat x') of
               Inl err \<Rightarrow> Some (Inl (Raised err), s', tr' @ [Invoke])
             | Inr sleep \<Rightarrow>
                 (case warning_text py' name' sleep x' (retries cfg') e of
                    Inl err \<Rightarrow> Some (Inl (Raised err), s', tr' @ [Invoke])
                  | Inr txt \<Rightarrow>
                      (case time_sleep py' sleep of
                         Inl err \<Rightarrow>
                           Some (Inl (Raised err), s',
                                 tr' @ [Invoke, Log \<lparr>log_name = module_logger, log_level = WARNING,
                                                     log_msg = txt\<rparr>])
                       | Inr u \<Rightarrow>
                           loop py' cfg' name' func' (x' + 1) s'
                             (tr' @ [Invoke, Log \<lparr>log_name = module_logger, log_level = WARNING,
                                                 log_msg = txt\<rparr>, Sleep sleep]))))
      | (Inr r, s') \<Rightarrow> Some (Inr r, s', tr' @ [Invoke])) = Some y'"
    show "?P py' cfg' name' func' x' s0 tr' y'"
    proof (intro impI)
      assume p: "py' = py" and c: "cfg' = cfg" and n: "name' = name" and f: "func' = func"
        and x: "0 \<le> x'"
      from assms(3) have "case func s0 of (Inl e, s') \<Rightarrow> isinstance e (exceptions cfg) | (Inr r, s') \<Rightarrow> False"
        unfolding always_fails_retryably_def by (rule spec)
      then obtain e s1 where fs: "func s0 = (Inl e, s1)" and m: "isinstance e (exceptions cfg)"
        by (auto split: prod.splits sum.splits)
      have ne: "x' \<noteq> retries cfg" using assms(1) x by simp
      from assms(4) have "str_returns func s0 (Suc 0)" by blast
      with fs obtain msg where msg: "exc_text e = Inr msg" by (auto split: sum.splits)
      from assms(5) have "delay_accepted py cfg (nat x')" by blast
      then have d: "backoff_delay (backoff_in_seconds cfg) (nat x')
                    = Inr (scaled (backoff_in_seconds cfg) (nat x'))"
        and sl: "time_sleep py (scaled (backoff_in_seconds cfg) (nat x')) = Inr ()"
        by (simp_all add: delay_accepted_sleep)
      from run fs m ne d sl msg p c n f assms(2)
      obtain tr1 where "loop py cfg name func (x' + 1) s1 tr1 = Some y'"
        by (auto simp add: warning_text_def)
      from IH [OF this] x show False by simp
    qed
  qed
  with assms(6) show ?thesis by simp
qed

lemma retry_with_backoff_negative_retries:
  assumes "retries cfg < 0" and "name = Inr nm"
    and "always_fails_retryably cfg func"
    and "\<forall>s k. str_returns func s k"
    and "\<forall>k. delay_accepted py cfg k"
  shows "retry_with_backoff py cfg name func s = None"
  unfolding retry_with_backoff_def
  by (rule retry_loop_negative_retries [OF assms order_refl])

subsection \<open>The workflow helpers and the settings cache\<close>

lemma core_step_self: "fst (core_step fmt c (self, tr)) = self"
  by (cases c)
    (simp_all add: rfr_level_4_alert_def log_partial_success_def Let_def split: sum.splits)

lemma run_core_self: "fst (run_core fmt calls (self, tr)) = self"
proof (induction calls arbitrary: tr)
  case Nil
  show ?case by (simp add: run_core_def)
next
  case (Cons c calls)
  have "core_step fmt c (self, tr) = (self, snd (core_step fmt c (self, tr)))"
    using core_step_self [of fmt c self tr] by (simp add: prod_eq_iff)
  with Cons.IH [of "snd (core_step fmt c (self, tr))"] show ?case
    by (simp add: run_core_def)
qed

lemma get_settings_calls_cached:
  "cached h = Some r \<Longrightarrow> get_settings_calls init envs h = (replicate (length envs) (Inr r), h)"
  by (induction envs) (simp_all add: get_settings_def)

lemma get_settings_caches:
  "get_settings init env h = (Inr r, h') \<Longrightarrow> cached h' = Some r"
  by (auto simp add: get_settings_def split: option.splits sum.splits)

lemma rfr_level_4_alert_logs:
  assumes "fmt (case ctx of None \<Rightarrow> [] | Some d \<Rightarrow> d) = Inr txt"
  shows "\<exists>r. rfr_level_4_alert fmt self message ctx tr = (Inr (), self, tr @ [Log r])
     \<and> log_level r = CRITICAL \<and> log_name r = logger self
     \<and> log_msg r = ''RFR-L4 ALERT | Org: '' @ org_id self @ '' | Message: '' @ message
          @ '' | Context: '' @ txt
     \<and> sublist (org_id self) (log_msg r) \<and> sublist message (log_msg r)
     \<and> sublist txt (log_msg r)"
proof -
  let ?m = "''RFR-L4 ALERT | Org: '' @ org_id self @ '' | Message: '' @ message
          @ '' | Context: '' @ txt"
  let ?r = "\<lparr>log_name = logger self, log_level = CRITICAL, log_msg = ?m\<rparr>"
  have ec: "(case ctx of None \<Rightarrow> [] | Some d \<Rightarrow> if d = [] then [] else d)
            = (case ctx of None \<Rightarrow> [] | Some d \<Rightarrow> d)"
    by (simp split: option.splits)
  have run: "rfr_level_4_alert fmt self message ctx tr = (Inr (), self, tr @ [Log ?r])"
    unfolding rfr_level_4_alert_def Let_def ec assms by simp
  have s1: "sublist (org_id self) ?m"
    unfolding sublist_def
    by (rule exI [of _ "''RFR-L4 ALERT | Org: ''"],
        rule exI [of _ "'' | Message: '' @ message @ '' | Context: '' @ txt"]) simp
  have s2: "sublist message ?m"
    unfolding sublist_def
    by (rule exI [of _ "''RFR-L4 ALERT | Org: '' @ org_id self @ '' | Message: ''"],
        rule exI [of _ "'' | Context: '' @ txt"]) simp
  have s3: "sublist txt ?m"
    unfolding sublist_def
    by (rule exI [of _ "''RFR-L4 ALERT | Org: '' @ org_id self @ '' | Message: '' @ message
          @ '' | Context: ''"], rule exI [of _ "[]"]) simp
  show ?thesis
    by (rule exI [of _ ?r]) (use run s1 s2 s3 in simp)
qed

section \<open>The retry wrapper: success on the first call\<close>

text \<open>
  C6. Whatever the retry configuration, when the first call of the operation returns
  \<open>r\<close>, the wrapped operation returns exactly \<open>r\<close>: the trace holds the one call and
  nothing else (no sleep, no log), and the state is the one that call left.
\<close>

theorem retry_first_success:
  assumes "func s = (Inr r, s')"
  shows "retry_with_backoff py cfg name func s = Some (Inr r, s', [Invoke])"
  using assms by (simp add: retry_with_backoff_def retry_loop.simps)

theorem retry_first_success_witness:
  "(\<lambda>s::nat. (Inr (42::int) :: nat exc_object + int, Suc s)) 0 = (Inr 42, 1)
   \<and> retry_with_backoff (cpython []) retry_defaults (Inr ''fetch'')
        (\<lambda>s::nat. (Inr (42::int) :: nat exc_object + int, Suc s)) 0
       = Some (Inr 42, 1, [Invoke])"
  using retry_first_success
    [of "\<lambda>s::nat. (Inr (42::int) :: nat exc_object + int, Suc s)" 0 42 1 "cpython []" retry_defaults
        "Inr ''fetch''"]
  by simp

section \<open>The retry wrapper: a budget spent on failures\<close>

text \<open>
  C2, as amended. Take a retry policy with \<open>retries = n \<ge> 0\<close> and an operation that
  fails at every call with an exception the policy catches, and let the statements of the
  \<open>except\<close> block succeed: the wrapped callable has a \<open>__name__\<close>, \<open>str(e)\<close> returns on
  each of the first \<open>n\<close> failures, and each delay \<open>backoff_in_seconds * 2 ** k\<close>,
  \<open>k < n\<close>, is computed and \<open>time.sleep\<close> returns from it. Then the wrapper returns (it
  does not loop for ever), it has called the operation exactly \<open>n + 1\<close> times with \<open>n\<close>
  sleeps between the calls, and what it raises is the very object that call \<open>n + 1\<close>
  raised. With \<open>n = 0\<close> this is one call and no sleep.
\<close>

theorem retry_exhausts_budget:
  assumes "0 \<le> retries cfg" and "name = Inr nm"
    and "always_fails_retryably cfg func"
    and "str_returns func s (nat (retries cfg))"
    and "\<forall>k < nat (retries cfg). delay_accepted py cfg k"
  shows "\<exists>e s' tr. func (state_after func (nat (retries cfg)) s) = (Inl e, s')
      \<and> retry_with_backoff py cfg name func s = Some (Inl (Reraised e), s', tr)
      \<and> invocations tr = nat (retries cfg) + 1
      \<and> length (sleeps tr) = nat (retries cfg)"
proof -
  have fails: "fails_retryably cfg func s (Suc (nat (retries cfg)))"
    using assms(3) by (rule always_fails_retryably_prefix)
  from retry_with_backoff_exhausts [OF assms(1) assms(2) fails assms(4) assms(5)]
  obtain e s' tr where
    "func (state_after func (nat (retries cfg)) s) = (Inl e, s')"
    "retry_with_backoff py cfg name func s = Some (Inl (Reraised e), s', tr)"
    "invocations tr = Suc (nat (retries cfg))"
    "sleeps tr = map (scaled (backoff_in_seconds cfg)) [0..<nat (retries cfg)]"
    by blast
  then show ?thesis by simp
qed

theorem retry_exhausts_budget_witness:
  "0 \<le> retries \<lparr>retries = 2, backoff_in_seconds = IntSeconds 1, exceptions = [Exception]\<rparr>
   \<and> always_fails_retryably \<lparr>retries = 2, backoff_in_seconds = IntSeconds 1, exceptions = [Exception]\<rparr>
         failing_method
   \<and> str_returns failing_method 0 2
   \<and> delay_accepted (cpython []) \<lparr>retries = 2, backoff_in_seconds = IntSeconds 1, exceptions = [Exception]\<rparr> 0
   \<and> delay_accepted (cpython []) \<lparr>retries = 2, backoff_in_seconds = IntSeconds 1, exceptions = [Exception]\<rparr> 1
   \<and> (\<exists>tr. retry_with_backoff (cpython [])
              \<lparr>retries = 2, backoff_in_seconds = IntSeconds 1, exceptions = [Exception]\<rparr>
              (Inr ''failing_method'') failing_method 0
            = Some (Inl (Reraised \<lparr>exc_id = 2, exc_type = ValueError,
                                   exc_text = Inr ''Simulated Transient Failure''\<rparr>), 3, tr)
          \<and> invocations tr = 3 \<and> length (sleeps tr) = 2)"
proof -
  let ?cfg = "\<lparr>retries = 2, backoff_in_seconds = IntSeconds 1, exceptions = [Exception]\<rparr>"
  have h1: "0 \<le> retries ?cfg" by simp
  have h3: "always_fails_retryably ?cfg failing_method"
    by (rule failing_method_always_fails)
  have h4: "str_returns failing_method 0 2"
    by (simp add: eval_nat_numeral failing_method_def raising_def)
  have h4': "str_returns failing_method 0 (nat (retries ?cfg))"
    using h4 by simp
  have a0: "delay_accepted (cpython []) ?cfg 0" and a1: "delay_accepted (cpython []) ?cfg 1"
    by (simp_all add: delay_accepted_def cpython_def cpython_sleep_def)
  have h5: "\<forall>k < nat (retries ?cfg). delay_accepted (cpython []) ?cfg k"
  proof (intro allI impI)
    fix k assume "k < nat (retries ?cfg)"
    then have "k = 0 \<or> k = 1" by auto
    with a0 a1 show "delay_accepted (cpython []) ?cfg k" by auto
  qed
  have st: "state_after failing_method (nat (retries ?cfg)) 0 = 2"
    by (simp add: eval_nat_numeral failing_method_def raising_def)
  from retry_exhausts_budget [OF h1 refl h3 h4' h5, of "''failing_method''"] st
  have "\<exists>tr. retry_with_backoff (cpython []) ?cfg (Inr ''failing_method'') failing_method 0
            = Some (Inl (Reraised \<lparr>exc_id = 2, exc_type = ValueError,
                                   exc_text = Inr ''Simulated Transient Failure''\<rparr>), 3, tr)
          \<and> invocations tr = 3 \<and> length (sleeps tr) = 2"
    by (auto simp add: failing_method_def raising_def)
  with h1 h3 h4 a0 a1 show ?thesis by blast
qed

text \<open>
  Without these provisos the wrapper raises something else, after fewer calls. With
  \<open>retries = 1\<close> and a delay of \<open>10 ** 10\<close> seconds \<open>time.sleep\<close> raises
  \<open>OverflowError\<close> after the first call. For a callable without \<open>__name__\<close> the
  f-string of the log call raises \<open>AttributeError\<close>, already with \<open>retries = 0\<close>. When
  \<open>str(e)\<close> raises, that exception leaves the wrapper after the first call.
\<close>

theorem retry_exhausts_budget_counterexample:
  "always_fails_retryably
      \<lparr>retries = 1, backoff_in_seconds = IntSeconds 10000000000, exceptions = [Exception]\<rparr>
      failing_method
   \<and> retry_with_backoff (cpython [])
        \<lparr>retries = 1, backoff_in_seconds = IntSeconds 10000000000, exceptions = [Exception]\<rparr>
        (Inr ''failing_method'') failing_method 0
     = Some (Inl (Raised \<lparr>exc_class = OverflowError,
                          exc_str = ''timestamp too large to convert to C _PyTime_t''\<rparr>),
             1,
             [Invoke,
              Log \<lparr>log_name = module_logger, log_level = WARNING,
                   log_msg = ''Retrying failing_method in 10000000000s (Attempt 1/1) due to Simulated Transient Failure''\<rparr>])
   \<and> retry_with_backoff (cpython [])
        \<lparr>retries = 0, backoff_in_seconds = IntSeconds 1, exceptions = [Exception]\<rparr>
        (Inl missing_name)
        failing_method 0
     = Some (Inl (Raised missing_name),
             1, [Invoke])
   \<and> always_fails_retryably
        \<lparr>retries = 1, backoff_in_seconds = IntSeconds 1, exceptions = [Exception]\<rparr>
        (raising ValueError (Inl \<lparr>exc_class = RuntimeError, exc_str = ''__str__ failed''\<rparr>))
   \<and> retry_with_backoff (cpython [])
        \<lparr>retries = 1, backoff_in_seconds = IntSeconds 1, exceptions = [Exception]\<rparr>
        (Inr ''failing_method'')
        (raising ValueError (Inl \<lparr>exc_class = RuntimeError, exc_str = ''__str__ failed''\<rparr>)) 0
     = Some (Inl (Raised \<lparr>exc_class = RuntimeError, exc_str = ''__str__ failed''\<rparr>), 1, [Invoke])"
  by (simp add: failing_method_always_fails retry_with_backoff_def retry_loop.simps
      failing_method_def raising_def isinstance_def ValueError_def Exception_def
      error_text_def warning_text_def str_seconds_def str_int_def str_nat.simps
      cpython_def cpython_sleep_def always_fails_retryably_def)

section \<open>The retry wrapper: the delays\<close>

text \<open>
  C3, as amended. For \<open>retries = n\<close> and \<open>backoff_in_seconds = d\<close>, an \<open>int\<close> or a
  \<open>float\<close>, when the first \<open>n + 1\<close> calls of the operation fail with an exception the
  policy catches and the statements of the \<open>except\<close> block succeed (the callable has a
  \<open>__name__\<close>, \<open>str(e)\<close> returns on the first \<open>n\<close> failures, each delay
  \<open>d * 2 ** k\<close>, \<open>k < n\<close>, is computed and \<open>time.sleep\<close> returns from it), the
  wrapper's calls and sleeps alternate: call, sleep \<open>d * 2^0\<close>, call, sleep
  \<open>d * 2^1\<close>, ..., sleep \<open>d * 2^(n-1)\<close>, call. So the sleep before retry \<open>k\<close>
  (\<open>k = 1..n\<close>) lasts \<open>d * 2^(k-1)\<close>, and the delays requested before the failure
  surfaces add up to \<open>d * (2^n - 1)\<close>, which is the claim's lower bound.
\<close>

theorem retry_backoff_delays:
  assumes "0 \<le> retries cfg" and "name = Inr nm"
    and "fails_retryably cfg func s (nat (retries cfg) + 1)"
    and "str_returns func s (nat (retries cfg))"
    and "\<forall>k < nat (retries cfg). delay_accepted py cfg k"
  shows "\<exists>e s' tr. retry_with_backoff py cfg name func s = Some (Inl (Reraised e), s', tr)
      \<and> no_logs tr =
           concat (map (\<lambda>k. [Invoke, Sleep (scaled (backoff_in_seconds cfg) k)])
                     [0..<nat (retries cfg)])
           @ [Invoke]
      \<and> sleeps tr = map (scaled (backoff_in_seconds cfg)) [0..<nat (retries cfg)]
      \<and> (\<forall>k. 1 \<le> k \<and> k \<le> nat (retries cfg)
             \<longrightarrow> seconds_value (sleeps tr ! (k - 1))
                 = seconds_value (backoff_in_seconds cfg) * 2 ^ (k - 1))
      \<and> total_delay tr = seconds_value (backoff_in_seconds cfg) * (2 ^ nat (retries cfg) - 1)
      \<and> seconds_value (backoff_in_seconds cfg) * (2 ^ nat (retries cfg) - 1) \<le> total_delay tr"
proof -
  have fails: "fails_retryably cfg func s (Suc (nat (retries cfg)))"
    using assms(3) by simp
  from retry_with_backoff_exhausts [OF assms(1) assms(2) fails assms(4) assms(5)]
  obtain e s' tr where run: "retry_with_backoff py cfg name func s = Some (Inl (Reraised e), s', tr)"
    and sl: "sleeps tr = map (scaled (backoff_in_seconds cfg)) [0..<nat (retries cfg)]"
    and nl: "no_logs tr =
           concat (map (\<lambda>k. [Invoke, Sleep (scaled (backoff_in_seconds cfg) k)])
                     [0..<nat (retries cfg)])
           @ [Invoke]"
    by blast
  have each: "\<forall>k. 1 \<le> k \<and> k \<le> nat (retries cfg)
             \<longrightarrow> seconds_value (sleeps tr ! (k - 1))
                 = seconds_value (backoff_in_seconds cfg) * 2 ^ (k - 1)"
  proof (intro allI impI)
    fix k :: nat
    assume "1 \<le> k \<and> k \<le> nat (retries cfg)"
    then have "k - 1 < nat (retries cfg)" by arith
    then show "seconds_value (sleeps tr ! (k - 1))
                 = seconds_value (backoff_in_seconds cfg) * 2 ^ (k - 1)"
      by (simp add: sl seconds_value_scaled)
  qed
  have "map seconds_value (sleeps tr)
        = map (\<lambda>j. seconds_value (backoff_in_seconds cfg) * 2 ^ j) [0..<nat (retries cfg)]"
    by (simp add: sl seconds_value_scaled)
  then have total: "total_delay tr
        = seconds_value (backoff_in_seconds cfg) * (2 ^ nat (retries cfg) - 1)"
    unfolding total_delay_def by (simp add: sum_list_doubling)
  show ?thesis
    using run nl sl each total by simp
qed

text \<open>
  The repository's test: \<open>retries = 2\<close> and \<open>backoff_in_seconds = 0.1\<close>, the float
  whose exact value is \<open>3602879701896397 / 2^55\<close>. The wrapper sleeps \<open>0.1\<close> and
  \<open>0.2\<close> seconds between its three calls.
\<close>

theorem retry_backoff_delays_witness:
  "0 \<le> retries \<lparr>retries = 2, backoff_in_seconds = FloatSeconds (3602879701896397 / 36028797018963968), exceptions = [Exception]\<rparr>
   \<and> fails_retryably \<lparr>retries = 2, backoff_in_seconds = FloatSeconds (3602879701896397 / 36028797018963968), exceptions = [Exception]\<rparr>
        failing_method 0 3
   \<and> str_returns failing_method 0 2
   \<and> delay_accepted (cpython [(3602879701896397 / 36028797018963968, ''0.1''), (3602879701896397 / 18014398509481984, ''0.2'')])
        \<lparr>retries = 2, backoff_in_seconds = FloatSeconds (3602879701896397 / 36028797018963968), exceptions = [Exception]\<rparr> 0
   \<and> delay_accepted (cpython [(3602879701896397 / 36028797018963968, ''0.1''), (3602879701896397 / 18014398509481984, ''0.2'')])
        \<lparr>retries = 2, backoff_in_seconds = FloatSeconds (3602879701896397 / 36028797018963968), exceptions = [Exception]\<rparr> 1
   \<and> (\<exists>e s' tr. retry_with_backoff (cpython [(3602879701896397 / 36028797018963968, ''0.1''), (3602879701896397 / 18014398509481984, ''0.2'')])
              \<lparr>retries = 2, backoff_in_seconds = FloatSeconds (3602879701896397 / 36028797018963968), exceptions = [Exception]\<rparr>
              (Inr ''failing_method'') failing_method 0
            = Some (Inl (Reraised e), s', tr)
          \<and> no_logs tr = [Invoke, Sleep (FloatSeconds (3602879701896397 / 36028797018963968)), Invoke,
                           Sleep (FloatSeconds (3602879701896397 / 18014398509481984)), Invoke]
          \<and> sleeps tr = [FloatSeconds (3602879701896397 / 36028797018963968), FloatSeconds (3602879701896397 / 18014398509481984)]
          \<and> total_delay tr = 10808639105689191 / 36028797018963968)"
proof -
  let ?cfg = "\<lparr>retries = 2, backoff_in_seconds = FloatSeconds (3602879701896397 / 36028797018963968), exceptions = [Exception]\<rparr>"
  let ?py = "cpython [(3602879701896397 / 36028797018963968, ''0.1''), (3602879701896397 / 18014398509481984, ''0.2'')]"
  have h1: "0 \<le> retries ?cfg" by simp
  have h3: "fails_retryably ?cfg failing_method 0 3"
    by (simp add: eval_nat_numeral failing_method_def raising_def isinstance_def
        ValueError_def Exception_def)
  have h3': "fails_retryably ?cfg failing_method 0 (nat (retries ?cfg) + 1)"
    using h3 by (simp add: eval_nat_numeral)
  have h4: "str_returns failing_method 0 2"
    by (simp add: eval_nat_numeral failing_method_def raising_def)
  have h4': "str_returns failing_method 0 (nat (retries ?cfg))"
    using h4 by simp
  have a0: "delay_accepted ?py ?cfg 0" and a1: "delay_accepted ?py ?cfg 1"
    by (simp_all add: delay_accepted_def cpython_def cpython_sleep_def)
  have h5: "\<forall>k < nat (retries ?cfg). delay_accepted ?py ?cfg k"
  proof (intro allI impI)
    fix k assume "k < nat (retries ?cfg)"
    then have "k = 0 \<or> k = 1" by auto
    with a0 a1 show "delay_accepted ?py ?cfg k" by auto
  qed
  have up: "[0..<nat (retries ?cfg)] = [0, 1]"
    by (simp add: eval_nat_numeral upt_rec)
  from retry_backoff_delays [OF h1 refl h3' h4' h5, of "''failing_method''"]
  obtain e s' tr where
    "retry_with_backoff ?py ?cfg (Inr ''failing_method'') failing_method 0
       = Some (Inl (Reraised e), s', tr)"
    "no_logs tr = [Invoke, Sleep (FloatSeconds (3602879701896397 / 36028797018963968)), Invoke, Sleep (FloatSeconds (3602879701896397 / 18014398509481984)), Invoke]"
    "sleeps tr = [FloatSeconds (3602879701896397 / 36028797018963968), FloatSeconds (3602879701896397 / 18014398509481984)]" "total_delay tr = 10808639105689191 / 36028797018963968"
    unfolding up by auto
  with h1 h3 h4 a0 a1 show ?thesis by blast
qed

text \<open>
  With \<open>n = 1\<close> and \<open>d = 10 ** 10\<close> seconds the wrapper sleeps nothing: \<open>time.sleep\<close>
  raises \<open>OverflowError\<close>, and the delay incurred is \<open>0\<close>, below \<open>d * (2^1 - 1)\<close>.
\<close>

theorem retry_backoff_delays_counterexample:
  "fails_retryably
      \<lparr>retries = 1, backoff_in_seconds = IntSeconds 10000000000, exceptions = [Exception]\<rparr>
      failing_method 0 2
   \<and> retry_with_backoff (cpython [])
        \<lparr>retries = 1, backoff_in_seconds = IntSeconds 10000000000, exceptions = [Exception]\<rparr>
        (Inr ''failing_method'') failing_method 0
     = Some (Inl (Raised \<lparr>exc_class = OverflowError,
                          exc_str = ''timestamp too large to convert to C _PyTime_t''\<rparr>),
             1,
             [Invoke,
              Log \<lparr>log_name = module_logger, log_level = WARNING,
                   log_msg = ''Retrying failing_method in 10000000000s (Attempt 1/1) due to Simulated Transient Failure''\<rparr>])
   \<and> sleeps [Invoke,
              Log \<lparr>log_name = module_logger, log_level = WARNING,
                   log_msg = ''Retrying failing_method in 10000000000s (Attempt 1/1) due to Simulated Transient Failure''\<rparr>]
       = []
   \<and> total_delay [Invoke,
              Log \<lparr>log_name = module_logger, log_level = WARNING,
                   log_msg = ''Retrying failing_method in 10000000000s (Attempt 1/1) due to Simulated Transient Failure''\<rparr>]
       < seconds_value (IntSeconds 10000000000) * (2 ^ 1 - 1)"
proof -
  have "fails_retryably
      \<lparr>retries = 1, backoff_in_seconds = IntSeconds 10000000000, exceptions = [Exception]\<rparr>
      failing_method 0 (Suc (Suc 0))"
    by (simp add: failing_method_def raising_def isinstance_def ValueError_def Exception_def)
  then have "fails_retryably
      \<lparr>retries = 1, backoff_in_seconds = IntSeconds 10000000000, exceptions = [Exception]\<rparr>
      failing_method 0 2"
    by (simp add: numeral_2_eq_2)
  then show ?thesis
    by (simp add: retry_with_backoff_def retry_loop.simps
        failing_method_def raising_def isinstance_def ValueError_def Exception_def
        error_text_def warning_text_def str_seconds_def str_int_def str_nat.simps
        cpython_def cpython_sleep_def total_delay_def)
qed

section \<open>The retry wrapper: an exception outside the retryable classes\<close>

text \<open>
  C4. Whatever the retry configuration, when the operation raises an exception that is
  an instance of none of the classes in \<open>exceptions\<close>, the wrapper raises that same
  exception at once: its trace is the single call, with no sleep (the total delay is
  zero) and no log record.
\<close>

theorem retry_non_retryable_propagates:
  assumes "func s = (Inl e, s')" and "\<not> isinstance e (exceptions cfg)"
  shows "retry_with_backoff py cfg name func s = Some (Inl (Reraised e), s', [Invoke])
      \<and> invocations [Invoke] = 1 \<and> sleeps [Invoke] = [] \<and> total_delay [Invoke] = 0
      \<and> no_logs [Invoke] = [Invoke]"
  using assms
  by (simp add: retry_with_backoff_def retry_loop.simps invocations_def total_delay_def)

theorem retry_non_retryable_propagates_witness:
  "raising (Cls ''KeyError'' [Cls ''LookupError'' [Exception]]) (Inr ''k'') 0
     = (Inl \<lparr>exc_id = 0, exc_type = Cls ''KeyError'' [Cls ''LookupError'' [Exception]],
             exc_text = Inr ''k''\<rparr>, 1)
   \<and> \<not> isinstance \<lparr>exc_id = 0::nat, exc_type = Cls ''KeyError'' [Cls ''LookupError'' [Exception]],
                    exc_text = Inr ''k''\<rparr>
          (exceptions \<lparr>retries = 3, backoff_in_seconds = IntSeconds 1, exceptions = [ValueError]\<rparr>)
   \<and> retry_with_backoff (cpython [])
        \<lparr>retries = 3, backoff_in_seconds = IntSeconds 1, exceptions = [ValueError]\<rparr> (Inr ''lookup'')
        (raising (Cls ''KeyError'' [Cls ''LookupError'' [Exception]]) (Inr ''k'')) 0
     = Some (Inl (Reraised \<lparr>exc_id = 0, exc_type = Cls ''KeyError'' [Cls ''LookupError'' [Exception]],
                            exc_text = Inr ''k''\<rparr>),
             1, [Invoke])"
proof -
  let ?e = "\<lparr>exc_id = 0::nat, exc_type = Cls ''KeyError'' [Cls ''LookupError'' [Exception]],
            exc_text = Inr ''k''\<rparr>"
  let ?cfg = "\<lparr>retries = 3, backoff_in_seconds = IntSeconds 1, exceptions = [ValueError]\<rparr>"
  let ?f = "raising (Cls ''KeyError'' [Cls ''LookupError'' [Exception]]) (Inr ''k'')"
  have h1: "?f 0 = (Inl ?e, 1)" by (simp add: raising_def)
  have h2: "\<not> isinstance ?e (exceptions ?cfg)"
    by (simp add: isinstance_def ValueError_def Exception_def BaseException_def object_def)
  from retry_non_retryable_propagates [of ?f 0 ?e 1 ?cfg "cpython []" "Inr ''lookup''"] h1 h2
  show ?thesis by simp
qed

section \<open>The retry wrapper: the default retryable classes\<close>



section \<open>BaseWorkflow: construction\<close>



section \<open>BaseWorkflow: the Level-4 alert\<close>

text \<open>
  C1. The claim is that \<open>rfr_level_4_alert\<close> never raises, for every context argument,
  and the method's docstring says it should never let the main process halt. The code
  does not keep that: when formatting the context raises (a value whose \<open>__repr__\<close>
  raises, data nested too deep), the exception leaves the method, whatever the instance
  and the message, and no critical record is logged. When the formatting returns, the
  method logs the record and returns (lemma \<open>rfr_level_4_alert_logs\<close>).
\<close>

theorem rfr_level_4_alert_raises:
  assumes "fmt (case ctx of None \<Rightarrow> [] | Some d \<Rightarrow> d) = Inl err"
  shows "rfr_level_4_alert fmt self message ctx tr = (Inl err, self, tr)"
proof -
  have ec: "(case ctx of None \<Rightarrow> [] | Some d \<Rightarrow> if d = [] then [] else d)
            = (case ctx of None \<Rightarrow> [] | Some d \<Rightarrow> d)"
    by (simp split: option.splits)
  show ?thesis
    unfolding rfr_level_4_alert_def Let_def ec assms by simp
qed

theorem rfr_level_4_alert_raises_witness:
  "(\<lambda>d. case d of
          [] \<Rightarrow> Inr ''{}''
        | (k, Inl e) # rest \<Rightarrow> Inl e
        | (k, Inr r) # rest \<Rightarrow> Inr (''{'' @ k @ '': '' @ r @ ''}''))
     (case Some [(''conn'', Inl \<lparr>exc_class = RuntimeError, exc_str = ''not connected''\<rparr>)] of
        None \<Rightarrow> [] | Some d \<Rightarrow> d)
     = (Inl \<lparr>exc_class = RuntimeError, exc_str = ''not connected''\<rparr> :: py_exception + string)
   \<and> rfr_level_4_alert
        (\<lambda>d. case d of
             [] \<Rightarrow> Inr ''{}''
           | (k, Inl e) # rest \<Rightarrow> Inl e
           | (k, Inr r) # rest \<Rightarrow> Inr (''{'' @ k @ '': '' @ r @ ''}''))
        \<lparr>org_id = ''org_42'', logger = ''MockWorkflow[org_42]''\<rparr> ''db down''
        (Some [(''conn'', Inl \<lparr>exc_class = RuntimeError, exc_str = ''not connected''\<rparr>)]) []
     = (Inl \<lparr>exc_class = RuntimeError, exc_str = ''not connected''\<rparr>,
        \<lparr>org_id = ''org_42'', logger = ''MockWorkflow[org_42]''\<rparr>, [])"
proof -
  let ?fmt = "\<lambda>d::(string \<times> (py_exception + string)) list. case d of
          [] \<Rightarrow> Inr ''{}''
        | (k, Inl e) # rest \<Rightarrow> Inl e
        | (k, Inr r) # rest \<Rightarrow> Inr (''{'' @ k @ '': '' @ r @ ''}'')"
  let ?boom = "\<lparr>exc_class = RuntimeError, exc_str = ''not connected''\<rparr>"
  have h: "?fmt (case Some [(''conn'', Inl ?boom)] of None \<Rightarrow> [] | Some d \<Rightarrow> d) = Inl ?boom"
    by simp
  from rfr_level_4_alert_raises [of ?fmt "Some [(''conn'', Inl ?boom)]" ?boom
         "\<lparr>org_id = ''org_42'', logger = ''MockWorkflow[org_42]''\<rparr>" "''db down''" "[]"] h
  show ?thesis by simp
qed

section \<open>BaseWorkflow: the tenant of an instance never changes\<close>

text \<open>
  C7. On a constructed instance, \<open>org_id\<close> is the argument of the construction and the
  logger's name is derived from it; after any sequence of \<open>rfr_level_4_alert\<close> and
  \<open>log_partial_success\<close> calls, with any arguments, the instance is the one
  \<open>__init__\<close> built, and one more call of either helper leaves it so.
\<close>

theorem workflow_tenant_fixed:
  assumes "BaseWorkflow_init class_name arg tr = (Inr w, tr')"
    and "run_core fmt calls (w, tr') = (w', tr'')"
  shows "w' = w \<and> PyStr (org_id w') = arg
      \<and> logger w' = class_name @ ''['' @ org_id w' @ '']''
      \<and> fst (snd (rfr_level_4_alert fmt w' message ctx tr'')) = w'
      \<and> fst (snd (log_partial_success w' step_name details tr'')) = w'"
proof -
  have same: "w' = w"
    using run_core_self [of fmt calls w tr'] assms(2) by simp
  have str: "is_PyStr arg" and nonempty: "truthy arg"
    using assms(1) by (auto simp add: BaseWorkflow_init_def split: if_splits)
  then obtain s where arg: "arg = PyStr s" by (cases arg) simp_all
  from assms(1) arg have "w = \<lparr>org_id = s, logger = class_name @ ''['' @ s @ '']''\<rparr>"
    by (auto simp add: BaseWorkflow_init_def Let_def split: if_splits)
  with same arg show ?thesis
    by (simp add: rfr_level_4_alert_def log_partial_success_def Let_def split: sum.splits)
qed

theorem workflow_tenant_fixed_witness:
  "BaseWorkflow_init ''MockWorkflow'' (PyStr ''org_test_123'') [] =
     (Inr \<lparr>org_id = ''org_test_123'', logger = ''MockWorkflow[org_test_123]''\<rparr>,
      [Log \<lparr>log_name = ''MockWorkflow[org_test_123]'', log_level = INFO,
            log_msg = ''Initialized workflow for Org: org_test_123''\<rparr>])
   \<and> fst (run_core (\<lambda>d::(string \<times> py_value) list. Inr ''{}'')
            [Alert ''db down'' None, PartialSuccess ''load'' ''ok'', Alert ''again'' None]
            (\<lparr>org_id = ''org_test_123'', logger = ''MockWorkflow[org_test_123]''\<rparr>,
             [Log \<lparr>log_name = ''MockWorkflow[org_test_123]'', log_level = INFO,
                   log_msg = ''Initialized workflow for Org: org_test_123''\<rparr>]))
       = \<lparr>org_id = ''org_test_123'', logger = ''MockWorkflow[org_test_123]''\<rparr>"
proof -
  let ?w = "\<lparr>org_id = ''org_test_123'', logger = ''MockWorkflow[org_test_123]''\<rparr>"
  let ?tr = "[Log \<lparr>log_name = ''MockWorkflow[org_test_123]'', log_level = INFO,
                   log_msg = ''Initialized workflow for Org: org_test_123''\<rparr>]"
  let ?fmt = "\<lambda>d::(string \<times> py_value) list. Inr ''{}''"
  let ?calls = "[Alert ''db down'' None, PartialSuccess ''load'' ''ok'', Alert ''again'' None]"
  have h1: "BaseWorkflow_init ''MockWorkflow'' (PyStr ''org_test_123'') [] = (Inr ?w, ?tr)"
    by (simp add: BaseWorkflow_init_def Let_def)
  have h2: "run_core ?fmt ?calls (?w, ?tr)
            = (fst (run_core ?fmt ?calls (?w, ?tr)), snd (run_core ?fmt ?calls (?w, ?tr)))"
    by simp
  from workflow_tenant_fixed [OF h1 h2] h1 show ?thesis by simp
qed

section \<open>config\_manager: the cached settings\<close>

text \<open>
  C8. Once a call of \<open>get_settings\<close> has returned the object \<open>r\<close>, every later call
  returns the same reference \<open>r\<close>, whatever the environment has become, constructs
  nothing and leaves the store (hence the object) untouched; any two of these calls
  return the same object.
\<close>

theorem get_settings_cached:
  assumes "get_settings init env h = (Inr r, h')"
  shows "get_settings_calls init envs h' = (replicate (length envs) (Inr r), h')
      \<and> (\<forall>i < length envs. \<forall>j < length envs.
            fst (get_settings_calls init envs h') ! i = fst (get_settings_calls init envs h') ! j)"
proof -
  have "cached h' = Some r" using assms by (rule get_settings_caches)
  then have "get_settings_calls init envs h' = (replicate (length envs) (Inr r), h')"
    by (rule get_settings_calls_cached)
  then show ?thesis by simp
qed

theorem get_settings_cached_witness:
  "get_settings (\<lambda>env::string. Inr (''ENVIRONMENT='' @ env) :: py_exception + string) ''development''
       \<lparr>objects = [], cached = None\<rparr>
     = (Inr 0, \<lparr>objects = [''ENVIRONMENT=development''], cached = Some 0\<rparr>)
   \<and> get_settings_calls (\<lambda>env::string. Inr (''ENVIRONMENT='' @ env) :: py_exception + string)
        [''production'', ''test''] \<lparr>objects = [''ENVIRONMENT=development''], cached = Some 0\<rparr>
     = ([Inr 0, Inr 0], \<lparr>objects = [''ENVIRONMENT=development''], cached = Some 0\<rparr>)"
proof -
  let ?init = "\<lambda>env::string. Inr (''ENVIRONMENT='' @ env) :: py_exception + string"
  have h: "get_settings ?init ''development'' \<lparr>objects = [], cached = None\<rparr>
     = (Inr 0, \<lparr>objects = [''ENVIRONMENT=development''], cached = Some 0\<rparr>)"
    by (simp add: get_settings_def)
  from get_settings_cached [OF h, of "[''production'', ''test'']"] h
  show ?thesis by (simp add: eval_nat_numeral)
qed

section \<open>config\_manager: the context of an organisation\<close>

text \<open>
  C10. For a non-empty \<open>org_id\<close> string \<open>get_org_context\<close> returns the dictionary
  with exactly the keys \<open>org_id\<close>, \<open>storage_prefix\<close> and \<open>log_prefix\<close>, bound to the
  argument, to \<open>"orgs/<org_id>/"\<close> and to \<open>"ALS[<org_id>]"\<close>; for the empty string and
  for \<open>None\<close> it raises its \<open>ValueError\<close> (the validation error of the specification)
  and returns no dictionary.
\<close>

theorem get_org_context_result:
  "(s \<noteq> [] \<longrightarrow>
      (\<exists>m. get_org_context (Some s) = Inr m
         \<and> dom m = {''org_id'', ''storage_prefix'', ''log_prefix''}
         \<and> m ''org_id'' = Some s
         \<and> m ''storage_prefix'' = Some (''orgs/'' @ s @ ''/'')
         \<and> m ''log_prefix'' = Some (''ALS['' @ s @ '']'')))
   \<and> get_org_context (Some []) =
        Inl \<lparr>exc_class = ValueError, exc_str = ''org_id is required for isolation enforcement.''\<rparr>
   \<and> get_org_context None =
        Inl \<lparr>exc_class = ValueError, exc_str = ''org_id is required for isolation enforcement.''\<rparr>"
  by (auto simp add: get_org_context_def)

theorem get_org_context_result_witness:
  "''org_42'' \<noteq> []
   \<and> (\<exists>m. get_org_context (Some ''org_42'') = Inr m
         \<and> dom m = {''org_id'', ''storage_prefix'', ''log_prefix''}
         \<and> m ''org_id'' = Some ''org_42''
         \<and> m ''storage_prefix'' = Some ''orgs/org_42/''
         \<and> m ''log_prefix'' = Some ''ALS[org_42]'')"
  using get_org_context_result [of "''org_42''"] by simp

end
